theory Spec2Isabelle
  imports Main
begin

section \<open>JavaScript values\<close>

text \<open>
  The store handles session payloads of type \<^verbatim>\<open>any\<close>. They are modelled by a small
  universe of JavaScript values. An object carries its own enumerable properties, in
  enumeration order, and a kind: a plain object, a \<^verbatim>\<open>Date\<close> with its time value in
  milliseconds, or a function. Idealisations: numbers are integers (no \<^verbatim>\<open>NaN\<close>, no
  fractions); a \<^verbatim>\<open>Date\<close> inside a payload is a valid date; a function is a pure method
  without arguments, given by the value it returns; inherited (prototype) properties are
  not modelled; property names of one object are distinct.
\<close>

datatype 'a objkind = Plain | DateObj int | FunObj 'a

datatype jsval =
    JUndefined
  | JNull
  | JBool bool
  | JNum int
  | JStr string
  | JObj "jsval objkind" "(string \<times> jsval) list"

abbreviation JDate :: "int \<Rightarrow> jsval" where
  "JDate t \<equiv> JObj (DateObj t) []"

abbreviation JPlain :: "(string \<times> jsval) list \<Rightarrow> jsval" where
  "JPlain props \<equiv> JObj Plain props"

abbreviation JFun :: "jsval \<Rightarrow> jsval" where
  "JFun r \<equiv> JObj (FunObj r) []"

text \<open>What the code throws: a \<^verbatim>\<open>TypeError\<close> of the runtime, or an \<^verbatim>\<open>Error\<close> with a message.\<close>

datatype error = TypeError | Error string

text \<open>The conversion to boolean that \<^verbatim>\<open>if\<close>, \<^verbatim>\<open>&&\<close>, \<^verbatim>\<open>||\<close> and \<^verbatim>\<open>?:\<close> apply.\<close>

fun truthy :: "jsval \<Rightarrow> bool" where
  "truthy JUndefined = False"
| "truthy JNull = False"
| "truthy (JBool b) = b"
| "truthy (JNum n) = (n \<noteq> 0)"
| "truthy (JStr s) = (s \<noteq> [])"
| "truthy (JObj k props) = True"

fun lookup :: "(string \<times> jsval) list \<Rightarrow> string \<Rightarrow> jsval" where
  "lookup [] k = JUndefined"
| "lookup ((k', v) # ps) k = (if k' = k then v else lookup ps k)"

text \<open>\<^verbatim>\<open>v.k\<close>: a \<^verbatim>\<open>TypeError\<close> on \<^verbatim>\<open>null\<close> and \<^verbatim>\<open>undefined\<close>.\<close>

fun get_prop :: "jsval \<Rightarrow> string \<Rightarrow> error + jsval" where
  "get_prop JUndefined k = Inl TypeError"
| "get_prop JNull k = Inl TypeError"
| "get_prop (JObj kind props) k = Inr (lookup props k)"
| "get_prop v k = Inr JUndefined"

text \<open>\<^verbatim>\<open>v?.k\<close>: \<^verbatim>\<open>undefined\<close> on \<^verbatim>\<open>null\<close> and \<^verbatim>\<open>undefined\<close>.\<close>

fun opt_prop :: "jsval \<Rightarrow> string \<Rightarrow> jsval" where
  "opt_prop (JObj kind props) k = lookup props k"
| "opt_prop v k = JUndefined"

fun assign :: "(string \<times> jsval) list \<Rightarrow> string \<Rightarrow> jsval \<Rightarrow> (string \<times> jsval) list" where
  "assign [] k v = [(k, v)]"
| "assign ((k', v') # ps) k v = (if k' = k then (k', v) # ps else (k', v') # assign ps k v)"

text \<open>\<^verbatim>\<open>o.k = v\<close> in strict mode (the code is a module): only an object takes a property.\<close>

fun set_prop :: "jsval \<Rightarrow> string \<Rightarrow> jsval \<Rightarrow> error + jsval" where
  "set_prop (JObj kind props) k v = Inr (JObj kind (assign props k v))"
| "set_prop o' k v = Inl TypeError"

text \<open>\<^verbatim>\<open>delete o.k\<close>: removes the own property; nothing to remove elsewhere.\<close>

fun delete_prop :: "jsval \<Rightarrow> string \<Rightarrow> jsval" where
  "delete_prop (JObj kind props) k = JObj kind (filter (\<lambda>p. fst p \<noteq> k) props)"
| "delete_prop v k = v"

text \<open>Calling a value: its result for a function, a \<^verbatim>\<open>TypeError\<close> otherwise.\<close>

fun call :: "jsval \<Rightarrow> error + jsval" where
  "call (JObj (FunObj r) props) = Inr r"
| "call v = Inl TypeError"

text \<open>\<^verbatim>\<open>d.getTime()\<close>: the time value of a \<^verbatim>\<open>Date\<close>; no such method on other values.\<close>

fun getTime :: "jsval \<Rightarrow> error + int" where
  "getTime (JObj (DateObj t) props) = Inr t"
| "getTime v = Inl TypeError"

text \<open>
  A date that the store makes with \<^verbatim>\<open>new Date(...)\<close> has a time value, or is an
  \<^verbatim>\<open>Invalid Date\<close>. \<^verbatim>\<open>new Date(n)\<close> for a number is invalid when \<open>n\<close> is more than
  8.64e15 milliseconds away from the epoch.
\<close>

datatype date = Invalid_Date | Time int

definition TimeClip :: "int \<Rightarrow> date" where
  "TimeClip n =
     (if - 8640000000000000 \<le> n \<and> n \<le> 8640000000000000 then Time n else Invalid_Date)"

text \<open>
  The properties \<^verbatim>\<open>for (prop in v)\<close> visits, each with the value \<^verbatim>\<open>v[prop]\<close>: the own
  properties of an object, the indices of a string, nothing for another value.
\<close>

fun digits :: "nat \<Rightarrow> string" where
  "digits n = (if n < 10 then [char_of (48 + n)] else digits (n div 10) @ [char_of (48 + n mod 10)])"

fun for_in :: "jsval \<Rightarrow> (string \<times> jsval) list" where
  "for_in (JObj kind props) = props"
| "for_in (JStr s) = map (\<lambda>i. (digits i, JStr [s ! i])) [0..<length s]"
| "for_in v = []"

section \<open>Options and transform functions\<close>

type_synonym transform = "jsval \<Rightarrow> error + jsval"

text \<open>
  The built-ins the code calls and the two methods of the \<^verbatim>\<open>kruptein\<close> instance are
  parameters. \<^verbatim>\<open>Date_of\<close> is \<^verbatim>\<open>new Date(v)\<close> for a string (the date it parses to,
  or an invalid date) or an object that is no \<^verbatim>\<open>Date\<close>. The promisified \<^verbatim>\<open>get\<close> and \<^verbatim>\<open>set\<close> of kruptein take the configured
  secret (\<open>None\<close> is \<^verbatim>\<open>false\<close>) and a text, and give a value or reject with a message.
\<close>

record builtins =
  JSON_stringify :: transform
  JSON_parse :: transform
  Date_of :: "jsval \<Rightarrow> date"

record kruptein =
  crypto_get :: "string option \<Rightarrow> jsval \<Rightarrow> string + jsval"
  crypto_set :: "string option \<Rightarrow> jsval \<Rightarrow> string + jsval"

text \<open>
  \<^verbatim>\<open>ConnectMongoOptions\<close>, every field optional (\<open>None\<close> is \<^verbatim>\<open>undefined\<close>). Of
  \<^verbatim>\<open>crypto\<close> only the secret decides anything here (\<open>None\<close> is \<^verbatim>\<open>false\<close>);
  \<^verbatim>\<open>ttl\<close> and \<^verbatim>\<open>touchAfter\<close> are whole numbers of seconds. The options
  that are only handed to the driver (\<^verbatim>\<open>collectionName\<close>, \<^verbatim>\<open>mongoOptions\<close>,
  \<^verbatim>\<open>dbName\<close>, \<^verbatim>\<open>createAutoRemoveIdx\<close>, \<^verbatim>\<open>writeOperationOptions\<close>) are left out.
\<close>

record ConnectMongoOptions =
  opt_mongoUrl :: "string option"
  opt_clientPromise :: bool
  opt_ttl :: "int option"
  opt_touchAfter :: "int option"
  opt_stringify :: "bool option"
  opt_serialize :: "transform option"
  opt_unserialize :: "transform option"
  opt_transformId :: "(string \<Rightarrow> string) option"
  opt_secret :: "string option"

record ConcretConnectMongoOptions =
  mongoUrl :: "string option"
  clientPromise :: bool
  ttl :: int
  touchAfter :: int
  stringify :: bool
  serialize :: "transform option"
  unserialize :: "transform option"
  transformId :: "(string \<Rightarrow> string) option"
  secret :: "string option"

definition unit_fn :: transform where
  "unit_fn a = Inr a"

text \<open>The conversion of the cookie: \<^verbatim>\<open>session.cookie.toJSON ? session.cookie.toJSON() : session.cookie\<close>.\<close>

definition cookie_toJSON :: "jsval \<Rightarrow> error + jsval" where
  "cookie_toJSON c =
     (case get_prop c ''toJSON'' of
        Inl e \<Rightarrow> Inl e
      | Inr m \<Rightarrow> if truthy m then call m else Inr c)"

text \<open>The loop of \<^verbatim>\<open>defaultSerializeFunction\<close> over the properties still to visit.\<close>

fun copy_props :: "(string \<times> jsval) list \<Rightarrow> (string \<times> jsval) list \<Rightarrow> error + (string \<times> jsval) list" where
  "copy_props [] obj = Inr obj"
| "copy_props ((prop, v) # rest) obj =
     (if prop = ''cookie'' then
        (case cookie_toJSON v of
           Inl e \<Rightarrow> Inl e
         | Inr c \<Rightarrow> copy_props rest (assign obj ''cookie'' c))
      else copy_props rest (assign obj prop v))"

definition defaultSerializeFunction :: transform where
  "defaultSerializeFunction sess =
     (case copy_props (for_in sess) [] of
        Inl e \<Rightarrow> Inl e
      | Inr obj \<Rightarrow> Inr (JPlain obj))"

record transformPair =
  serialize_fn :: transform
  unserialize_fn :: transform

definition computeTransformFunctions :: "builtins \<Rightarrow> ConcretConnectMongoOptions \<Rightarrow> transformPair" where
  "computeTransformFunctions js options =
     (if serialize options \<noteq> None \<or> unserialize options \<noteq> None then
        \<lparr> serialize_fn = (case serialize options of Some f \<Rightarrow> f | None \<Rightarrow> defaultSerializeFunction),
          unserialize_fn = (case unserialize options of Some g \<Rightarrow> g | None \<Rightarrow> unit_fn) \<rparr>
      else if stringify options = False then
        \<lparr> serialize_fn = defaultSerializeFunction, unserialize_fn = unit_fn \<rparr>
      else
        \<lparr> serialize_fn = JSON_stringify js, unserialize_fn = JSON_parse js \<rparr>)"

section \<open>The store\<close>

record MongoStore =
  options :: ConcretConnectMongoOptions
  transformFunctions :: transformPair
  crypto :: "kruptein option"

text \<open>
  The constructor: the defaults of the destructured parameter, the transform
  functions, the check for a connection source (\<^verbatim>\<open>assert\<close> of \<^verbatim>\<open>console\<close> only
  prints), and the kruptein instance \<open>k\<close> when the secret is truthy.
\<close>

definition MongoStore_new :: "builtins \<Rightarrow> kruptein \<Rightarrow> ConnectMongoOptions \<Rightarrow> error + MongoStore" where
  "MongoStore_new js k opts =
     (let options =
        \<lparr> mongoUrl = opt_mongoUrl opts,
          clientPromise = opt_clientPromise opts,
          ttl = (case opt_ttl opts of None \<Rightarrow> 1209600 | Some t \<Rightarrow> t),
          touchAfter = (case opt_touchAfter opts of None \<Rightarrow> 0 | Some t \<Rightarrow> t),
          stringify = (case opt_stringify opts of None \<Rightarrow> True | Some b \<Rightarrow> b),
          serialize = opt_serialize opts,
          unserialize = opt_unserialize opts,
          transformId = opt_transformId opts,
          secret = opt_secret opts \<rparr>
      in if mongoUrl options \<noteq> None \<and> mongoUrl options \<noteq> Some [] then
           Inr \<lparr> options = options,
                 transformFunctions = computeTransformFunctions js options,
                 crypto = (if secret options \<noteq> None \<and> secret options \<noteq> Some [] then Some k else None) \<rparr>
         else if clientPromise options then
           Inr \<lparr> options = options,
                 transformFunctions = computeTransformFunctions js options,
                 crypto = (if secret options \<noteq> None \<and> secret options \<noteq> Some [] then Some k else None) \<rparr>
         else Inl (Error ''Cannot init client''))"

definition computeStorageId :: "MongoStore \<Rightarrow> string \<Rightarrow> string" where
  "computeStorageId st sessionId =
     (case transformId (options st) of
        Some f \<Rightarrow> f sessionId
      | None \<Rightarrow> sessionId)"

section \<open>The collection\<close>

text \<open>
  \<^verbatim>\<open>InternalSessionType\<close>: a stored document. \<open>None\<close> for \<^verbatim>\<open>expires\<close> or
  \<^verbatim>\<open>lastModified\<close> is a document without the field. \<^verbatim>\<open>expires\<close> is the date the
  code has passed, which can be invalid; \<^verbatim>\<open>lastModified\<close> is always a reading of the
  clock, given by its time value. The driver is not part of the source: the collection
  keeps an invalid date as it got it, and no \<^verbatim>\<open>$gt\<close> matches it.
\<close>

record InternalSessionType =
  doc_id :: string
  session :: jsval
  expires :: "date option"
  lastModified :: "int option"

text \<open>The filters the code builds, and when a document matches.\<close>

datatype cond = Exists bool | Gt int

datatype query = Id_eq string | Expires cond | Or "query list" | And "query list"

fun matches :: "query \<Rightarrow> InternalSessionType \<Rightarrow> bool" where
  "matches (Id_eq i) d = (doc_id d = i)"
| "matches (Expires (Exists b)) d = ((expires d \<noteq> None) = b)"
| "matches (Expires (Gt t)) d =
     (case expires d of
        None \<Rightarrow> False
      | Some Invalid_Date \<Rightarrow> False
      | Some (Time e) \<Rightarrow> t < e)"
| "matches (Or qs) d = list_ex (\<lambda>q. matches q d) qs"
| "matches (And qs) d = list_all (\<lambda>q. matches q d) qs"

definition findOne :: "query \<Rightarrow> InternalSessionType list \<Rightarrow> InternalSessionType option" where
  "findOne q coll = List.find (matches q) coll"

definition find_docs :: "query \<Rightarrow> InternalSessionType list \<Rightarrow> InternalSessionType list" where
  "find_docs q coll = filter (matches q) coll"

text \<open>
  The argument of \<^verbatim>\<open>$set\<close>: \<open>None\<close> is a field the update does not name. (The
  \<^verbatim>\<open>_id\<close> that \<^verbatim>\<open>set\<close> also passes equals the filter's.)
\<close>

record updateFields =
  upd_session :: "jsval option"
  upd_expires :: "date option"
  upd_lastModified :: "int option"

definition apply_set :: "updateFields \<Rightarrow> InternalSessionType \<Rightarrow> InternalSessionType" where
  "apply_set u d =
     d \<lparr> session := (case upd_session u of Some p \<Rightarrow> p | None \<Rightarrow> session d),
         expires := (case upd_expires u of Some e \<Rightarrow> Some e | None \<Rightarrow> expires d),
         lastModified := (case upd_lastModified u of Some m \<Rightarrow> Some m | None \<Rightarrow> lastModified d) \<rparr>"

definition inserted :: "string \<Rightarrow> updateFields \<Rightarrow> InternalSessionType" where
  "inserted i u =
     \<lparr> doc_id = i,
       session = (case upd_session u of Some p \<Rightarrow> p | None \<Rightarrow> JUndefined),
       expires = upd_expires u,
       lastModified = upd_lastModified u \<rparr>"

record writeResult =
  modifiedCount :: nat
  upsertedCount :: nat

text \<open>
  \<^verbatim>\<open>updateOne({_id: i}, {$set: u}, {upsert})\<close>: the first document with the id is
  updated, and counts as modified when the update changes it; with \<^verbatim>\<open>upsert\<close> a
  document is inserted when none has the id.
\<close>

fun updateOne :: "string \<Rightarrow> updateFields \<Rightarrow> bool \<Rightarrow> InternalSessionType list \<Rightarrow> InternalSessionType list \<times> writeResult" where
  "updateOne i u upsert [] =
     (if upsert then ([inserted i u], \<lparr> modifiedCount = 0, upsertedCount = 1 \<rparr>)
      else ([], \<lparr> modifiedCount = 0, upsertedCount = 0 \<rparr>))"
| "updateOne i u upsert (d # ds) =
     (if doc_id d = i then
        (apply_set u d # ds,
         \<lparr> modifiedCount = (if apply_set u d = d then 0 else 1), upsertedCount = 0 \<rparr>)
      else (case updateOne i u upsert ds of (ds', r) \<Rightarrow> (d # ds', r)))"

section \<open>What a call reports\<close>

text \<open>
  In the operations below the session argument is written \<open>sess\<close>, since \<open>session\<close>
  names the field of the stored document. A call of the callback is a completion: \<^verbatim>\<open>callback(error)\<close> or
  \<^verbatim>\<open>callback(null, value)\<close>. A call of \<^verbatim>\<open>emit\<close> is an event. An operation yields the
  completions and the events in the order they happen; the callback and the listeners
  are taken not to throw.
\<close>

datatype 'a completion = Failure error | Success 'a

datatype event =
    EvCreate string
  | EvUpdate string
  | EvSet string
  | EvGet string
  | EvTouch string jsval
  | EvAll "jsval list"

record 'a outcome =
  completions :: "'a completion list"
  events :: "event list"

text \<open>
  A write also yields the collection promise with the collection as the call leaves it;
  \<^verbatim>\<open>set\<close> yields the caller's session object as the call leaves it.
\<close>

record 'a write_outcome = "'a outcome" +
  collectionP_after :: "error + InternalSessionType list"

record set_outcome = "unit write_outcome" +
  session_after :: jsval

section \<open>get\<close>

text \<open>The filter of \<^verbatim>\<open>get\<close>, with the clock reading \<open>now\<close> of \<^verbatim>\<open>new Date()\<close>.\<close>

definition get_query :: "MongoStore \<Rightarrow> string \<Rightarrow> int \<Rightarrow> query" where
  "get_query st sid now =
     And [Id_eq (computeStorageId st sid),
          Or [Expires (Exists False), Expires (Gt now)]]"

text \<open>
  The argument of the inner \<^verbatim>\<open>try\<close>: unserialize the stored payload, stringify it,
  decrypt; a rejection of kruptein is rethrown as \<^verbatim>\<open>new Error(err)\<close>.
\<close>

definition decrypt_payload :: "builtins \<Rightarrow> MongoStore \<Rightarrow> kruptein \<Rightarrow> InternalSessionType \<Rightarrow> error + jsval" where
  "decrypt_payload js st k d =
     (case unserialize_fn (transformFunctions st) (session d) of
        Inl e \<Rightarrow> Inl e
      | Inr u \<Rightarrow>
          (case JSON_stringify js u of
             Inl e \<Rightarrow> Inl e
           | Inr text \<Rightarrow>
               (case crypto_get k (secret (options st)) text of
                  Inl err \<Rightarrow> Inl (Error err)
                | Inr plaintext \<Rightarrow> Inr plaintext)))"

text \<open>
  \<^verbatim>\<open>if (this.options.touchAfter > 0 && session.lastModified) s.lastModified = session.lastModified\<close>,
  where \<open>found\<close> is the document (\<open>None\<close> is \<^verbatim>\<open>null\<close>) and \<open>s\<close> the unserialized payload.
\<close>

definition attach_lastModified :: "MongoStore \<Rightarrow> InternalSessionType option \<Rightarrow> jsval \<Rightarrow> error + jsval" where
  "attach_lastModified st found s =
     (if touchAfter (options st) > 0 then
        (case found of
           None \<Rightarrow> Inl TypeError
         | Some d \<Rightarrow>
             (case lastModified d of
                Some m \<Rightarrow> set_prop s ''lastModified'' (JDate m)
              | None \<Rightarrow> Inr s))
      else Inr s)"

definition get :: "builtins \<Rightarrow> MongoStore \<Rightarrow> error + InternalSessionType list \<Rightarrow> string \<Rightarrow> int \<Rightarrow> jsval outcome" where
  "get js st collectionP sid now =
     (case collectionP of
        Inl e \<Rightarrow> \<lparr> completions = [Failure e], events = [] \<rparr>
      | Inr collection \<Rightarrow>
          (case (case (crypto st, findOne (get_query st sid now) collection) of
                   (Some k, Some d) \<Rightarrow>
                     (case decrypt_payload js st k d of
                        Inl e \<Rightarrow> ([Failure e], Some d)
                      | Inr plaintext \<Rightarrow> ([], Some (d \<lparr> session := plaintext \<rparr>)))
                 | (c, found) \<Rightarrow> ([], found)) of
             (reported, found) \<Rightarrow>
               (case (case found of
                        None \<Rightarrow> Inr JNull
                      | Some d \<Rightarrow> unserialize_fn (transformFunctions st) (session d)) of
                  Inl e \<Rightarrow> \<lparr> completions = reported @ [Failure e], events = [] \<rparr>
                | Inr s \<Rightarrow>
                    (case attach_lastModified st found s of
                       Inl e \<Rightarrow> \<lparr> completions = reported @ [Failure e], events = [] \<rparr>
                     | Inr s' \<Rightarrow>
                         \<lparr> completions = reported @ [Success s'], events = [EvGet sid] \<rparr>))))"

section \<open>set\<close>

text \<open>\<^verbatim>\<open>if (this.options.touchAfter > 0 && session?.lastModified) delete session.lastModified\<close>.\<close>

definition strip_lastModified :: "MongoStore \<Rightarrow> jsval \<Rightarrow> jsval" where
  "strip_lastModified st sess =
     (if touchAfter (options st) > 0 \<and> truthy (opt_prop sess ''lastModified'')
      then delete_prop sess ''lastModified''
      else sess)"

text \<open>\<^verbatim>\<open>session?.cookie?.expires\<close>.\<close>

definition cookie_expires :: "jsval \<Rightarrow> jsval" where
  "cookie_expires sess = opt_prop (opt_prop sess ''cookie'') ''expires''"

text \<open>
  \<^verbatim>\<open>new Date(v)\<close>: the instant of a date, a number or a boolean as milliseconds, the
  parse of a string.
\<close>

fun new_Date :: "builtins \<Rightarrow> jsval \<Rightarrow> date" where
  "new_Date js (JObj (DateObj t) props) = Time t"
| "new_Date js (JNum n) = TimeClip n"
| "new_Date js (JBool b) = Time (if b then 1 else 0)"
| "new_Date js JNull = Time 0"
| "new_Date js v = Date_of js v"

text \<open>
  The expire handling of \<^verbatim>\<open>set\<close>; \<open>now\<close> is the reading of \<^verbatim>\<open>Date.now()\<close>. (The
  code adds in floating point. A sum of a date's time value and a whole number of
  thousands that lies in the range of dates is exact there, and one that lies outside is
  outside there too.)
\<close>

definition expire_handling :: "builtins \<Rightarrow> MongoStore \<Rightarrow> jsval \<Rightarrow> int \<Rightarrow> date" where
  "expire_handling js st sess now =
     (if truthy (cookie_expires sess) then new_Date js (cookie_expires sess)
      else TimeClip (now + ttl (options st) * 1000))"

text \<open>
  The encryption of \<^verbatim>\<open>set\<close>: the completion its \<^verbatim>\<open>catch\<close> reports, if any, and the
  payload the call goes on with.
\<close>

definition encrypt_payload :: "MongoStore \<Rightarrow> jsval \<Rightarrow> unit completion list \<times> jsval" where
  "encrypt_payload st payload =
     (case crypto st of
        None \<Rightarrow> ([], payload)
      | Some k \<Rightarrow>
          (case crypto_set k (secret (options st)) payload of
             Inl err \<Rightarrow> ([Failure (Error err)], payload)
           | Inr data \<Rightarrow> ([], data)))"

text \<open>
  \<open>now\<close> is the reading of \<^verbatim>\<open>Date.now()\<close> in the expire handling, \<open>now'\<close> that of
  \<^verbatim>\<open>new Date()\<close> in the last-modify handling.
\<close>

definition set_op :: "builtins \<Rightarrow> MongoStore \<Rightarrow> error + InternalSessionType list \<Rightarrow> string \<Rightarrow> jsval \<Rightarrow> int \<Rightarrow> int \<Rightarrow> set_outcome" where
  "set_op js st collectionP sid sess now now' =
     (let sess' = strip_lastModified st sess in
      case serialize_fn (transformFunctions st) sess' of
        Inl e \<Rightarrow>
          \<lparr> completions = [Failure e], events = [],
            collectionP_after = collectionP, session_after = sess' \<rparr>
      | Inr payload \<Rightarrow>
          (case encrypt_payload st payload of
             (reported, payload1) \<Rightarrow>
               (case collectionP of
                  Inl e \<Rightarrow>
                    \<lparr> completions = reported @ [Failure e], events = [],
                      collectionP_after = collectionP, session_after = sess' \<rparr>
                | Inr collection \<Rightarrow>
                    (case updateOne (computeStorageId st sid)
                            \<lparr> upd_session = Some payload1,
                              upd_expires = Some (expire_handling js st sess' now),
                              upd_lastModified =
                                (if touchAfter (options st) > 0 then Some now' else None) \<rparr>
                            True collection of
                       (collection', rawResp) \<Rightarrow>
                         \<lparr> completions = reported @ [Success ()],
                           events =
                             [if upsertedCount rawResp > 0 then EvCreate sid else EvUpdate sid,
                              EvSet sid],
                           collectionP_after = Inr collection',
                           session_after = sess' \<rparr>))))"

section \<open>touch\<close>

text \<open>
  The expire handling of \<^verbatim>\<open>touch\<close>: the new \<^verbatim>\<open>expires\<close> and, with an expiry on the
  cookie, the serialized session for the \<^verbatim>\<open>session\<close> field.
\<close>

definition touch_expire_handling :: "builtins \<Rightarrow> MongoStore \<Rightarrow> jsval \<Rightarrow> int \<Rightarrow> error + date \<times> jsval option" where
  "touch_expire_handling js st sess now =
     (if truthy (cookie_expires sess) then
        (case serialize_fn (transformFunctions st) sess of
           Inl e \<Rightarrow> Inl e
         | Inr payload \<Rightarrow> Inr (new_Date js (cookie_expires sess), Some payload))
      else Inr (TimeClip (now + ttl (options st) * 1000), None))"

text \<open>
  What \<^verbatim>\<open>touch\<close> decides before it turns to the collection: to skip, or the fields to
  update. \<open>currentDate\<close> is the reading of \<^verbatim>\<open>new Date()\<close>, \<open>now\<close> that of
  \<^verbatim>\<open>Date.now()\<close>.
\<close>

datatype touch_plan = Skip | Write updateFields

definition touch_fields :: "builtins \<Rightarrow> MongoStore \<Rightarrow> jsval \<Rightarrow> int \<Rightarrow> int \<Rightarrow> error + touch_plan" where
  "touch_fields js st sess currentDate now =
     (let touchAfter_ms = touchAfter (options st) * 1000 in
      case get_prop sess ''lastModified'' of
        Inl e \<Rightarrow> Inl e
      | Inr lm \<Rightarrow>
          (case (if truthy lm then getTime lm else Inr 0) of
             Inl e \<Rightarrow> Inl e
           | Inr lastModified_ms \<Rightarrow>
               if touchAfter_ms > 0 \<and> lastModified_ms > 0
                  \<and> currentDate - lastModified_ms < touchAfter_ms
               then Inr Skip
               else
                 (case touch_expire_handling js st sess now of
                    Inl e \<Rightarrow> Inl e
                  | Inr (e, payload) \<Rightarrow>
                      Inr (Write
                        \<lparr> upd_session = payload,
                          upd_expires = Some e,
                          upd_lastModified =
                            (if touchAfter_ms > 0 \<and> lastModified_ms > 0
                             then Some currentDate else None) \<rparr>))))"

definition touch :: "builtins \<Rightarrow> MongoStore \<Rightarrow> error + InternalSessionType list \<Rightarrow> string \<Rightarrow> jsval \<Rightarrow> int \<Rightarrow> int \<Rightarrow> unit write_outcome" where
  "touch js st collectionP sid sess currentDate now =
     (case touch_fields js st sess currentDate now of
        Inl e \<Rightarrow>
          \<lparr> completions = [Failure e], events = [], collectionP_after = collectionP \<rparr>
      | Inr Skip \<Rightarrow>
          \<lparr> completions = [Success ()], events = [], collectionP_after = collectionP \<rparr>
      | Inr (Write updateFields) \<Rightarrow>
          (case collectionP of
             Inl e \<Rightarrow>
               \<lparr> completions = [Failure e], events = [], collectionP_after = collectionP \<rparr>
           | Inr collection \<Rightarrow>
               (case updateOne (computeStorageId st sid) updateFields False collection of
                  (collection', rawResp) \<Rightarrow>
                    if modifiedCount rawResp = 0 then
                      \<lparr> completions = [Failure (Error ''Unable to find the session to touch'')],
                        events = [], collectionP_after = Inr collection' \<rparr>
                    else
                      \<lparr> completions = [Success ()], events = [EvTouch sid sess],
                        collectionP_after = Inr collection' \<rparr>)))"

section \<open>all\<close>

definition all_query :: "int \<Rightarrow> query" where
  "all_query now = Or [Expires (Exists False), Expires (Gt now)]"

text \<open>The iteration of the cursor: each payload is unserialized and pushed.\<close>

fun push_each :: "transform \<Rightarrow> InternalSessionType list \<Rightarrow> jsval list \<Rightarrow> error + jsval list" where
  "push_each f [] results = Inr results"
| "push_each f (d # ds) results =
     (case f (session d) of
        Inl e \<Rightarrow> Inl e
      | Inr v \<Rightarrow> push_each f ds (results @ [v]))"

text \<open>
  An exception of \<^verbatim>\<open>unserialize\<close> is thrown inside the driver's iteration, after the
  \<^verbatim>\<open>try\<close> block of \<^verbatim>\<open>all\<close> is left: the store reports no completion for it.
\<close>

definition all_op :: "MongoStore \<Rightarrow> error + InternalSessionType list \<Rightarrow> int \<Rightarrow> (jsval list) outcome" where
  "all_op st collectionP now =
     (case collectionP of
        Inl e \<Rightarrow> \<lparr> completions = [Failure e], events = [] \<rparr>
      | Inr collection \<Rightarrow>
          (case push_each (unserialize_fn (transformFunctions st))
                  (find_docs (all_query now) collection) [] of
             Inl e \<Rightarrow> \<lparr> completions = [], events = [] \<rparr>
           | Inr results \<Rightarrow>
               \<lparr> completions = [Success results], events = [EvAll results] \<rparr>))"

section \<open>Expired records and sample inputs\<close>

text \<open>
  A record is expired at \<open>now\<close> when its \<^verbatim>\<open>expires\<close> is present and not after
  \<open>now\<close>; an invalid date is after no instant.
\<close>

definition expired :: "int \<Rightarrow> InternalSessionType \<Rightarrow> bool" where
  "expired now d =
     (case expires d of
        None \<Rightarrow> False
      | Some Invalid_Date \<Rightarrow> True
      | Some (Time e) \<Rightarrow> e \<le> now)"

text \<open>
  Inputs for the examples. The sample of the built-ins is exact where the examples
  reach it: \<^verbatim>\<open>JSON.stringify\<close> of a string without special characters puts it in
  double quotes, and \<^verbatim>\<open>new Date\<close> parses the one date string below; nothing else is
  asked of it. The sample kruptein instance rejects every
  text, as kruptein does for a payload that the secret does not open.
\<close>

definition sample_builtins :: builtins where
  "sample_builtins =
     \<lparr> JSON_stringify =
         (\<lambda>v. case v of
                JStr s \<Rightarrow> Inr (JStr ([CHR 0x22] @ s @ [CHR 0x22]))
              | _ \<Rightarrow> Inl (Error ''not in the sample'')),
       JSON_parse = (\<lambda>v. Inl (Error ''not in the sample'')),
       Date_of =
         (\<lambda>v. if v = JStr ''1970-01-01T00:00:05.000Z'' then Time 5000 else Invalid_Date) \<rparr>"

definition sample_kruptein :: kruptein where
  "sample_kruptein =
     \<lparr> crypto_get = (\<lambda>secret text. Inl ''Encrypted session was tampered with!''),
       crypto_set = (\<lambda>secret text. Inl ''Encrypted session was tampered with!'') \<rparr>"

definition sample_options :: ConnectMongoOptions where
  "sample_options =
     \<lparr> opt_mongoUrl = Some ''mongodb://localhost/test'',
       opt_clientPromise = False,
       opt_ttl = None,
       opt_touchAfter = None,
       opt_stringify = Some False,
       opt_serialize = None,
       opt_unserialize = None,
       opt_transformId = None,
       opt_secret = None \<rparr>"

text \<open>The store the constructor returns; every option record below names a connection.\<close>

definition sample_store :: "ConnectMongoOptions \<Rightarrow> MongoStore" where
  "sample_store opts = projr (MongoStore_new sample_builtins sample_kruptein opts)"

section \<open>Auxiliary facts\<close>

text \<open>
  The equation of \<open>digits\<close> is recursive without a guard the simplifier could use.
\<close>

declare digits.simps [simp del]

subsection \<open>Queries\<close>

lemma matches_get_query:
  "matches (get_query st sid now) d = (doc_id d = computeStorageId st sid \<and> \<not> expired now d)"
  by (auto simp: get_query_def expired_def split: option.splits date.splits)

lemma matches_all_query: "matches (all_query now) d = (\<not> expired now d)"
  by (auto simp: all_query_def expired_def split: option.splits date.splits)

lemma find_filter_absorb:
  "(\<And>x. P x \<Longrightarrow> Q x) \<Longrightarrow> List.find P (filter Q xs) = List.find P xs"
  by (induction xs) auto

lemma filter_filter_absorb:
  "(\<And>x. P x \<Longrightarrow> Q x) \<Longrightarrow> filter P (filter Q xs) = filter P xs"
  by (induction xs) auto

lemma findOne_live:
  "findOne (get_query st sid now) (filter (\<lambda>x. \<not> expired now x) coll) = findOne (get_query st sid now) coll"
  unfolding findOne_def by (rule find_filter_absorb) (simp add: matches_get_query)

lemma find_docs_live:
  "find_docs (all_query now) (filter (\<lambda>x. \<not> expired now x) coll) = find_docs (all_query now) coll"
  unfolding find_docs_def by (rule filter_filter_absorb) (simp add: matches_all_query)

lemma findOne_matches: "findOne q coll = Some d \<Longrightarrow> matches q d"
  by (auto simp: findOne_def find_Some_iff)

lemma not_expired_iff:
  "(\<not> expired now d) = (expires d = None \<or> (\<exists>e. expires d = Some (Time e) \<and> now < e))"
  by (auto simp: expired_def split: option.splits date.splits)

subsection \<open>Updates\<close>

lemma findOne_Id_eq_Cons:
  "findOne (Id_eq i) (d # ds) = (if doc_id d = i then Some d else findOne (Id_eq i) ds)"
  by (simp add: findOne_def)

lemma findOne_Id_eq_Nil: "findOne (Id_eq i) [] = None"
  by (simp add: findOne_def)

lemma updateOne_stored:
  "findOne (Id_eq i) (fst (updateOne i u True coll)) =
     Some (case findOne (Id_eq i) coll of Some d \<Rightarrow> apply_set u d | None \<Rightarrow> inserted i u)"
  by (induction coll) (auto simp: findOne_Id_eq_Cons findOne_Id_eq_Nil apply_set_def inserted_def split: prod.splits)


lemma updateOne_upsertedCount:
  "upsertedCount (snd (updateOne i u True coll)) =
     (if list_ex (\<lambda>d. doc_id d = i) coll then 0 else 1)"
  by (induction coll) (auto split: prod.splits)

lemma updateOne_insert:
  "\<not> list_ex (\<lambda>d. doc_id d = i) coll \<Longrightarrow> fst (updateOne i u True coll) = coll @ [inserted i u]"
  by (induction coll) (auto split: prod.splits)

lemma updateOne_length:
  "list_ex (\<lambda>d. doc_id d = i) coll \<Longrightarrow> length (fst (updateOne i u b coll)) = length coll"
  by (induction coll) (auto split: prod.splits)

lemma updateOne_absent:
  "\<not> list_ex (\<lambda>d. doc_id d = i) coll \<Longrightarrow>
     updateOne i u False coll = (coll, \<lparr> modifiedCount = 0, upsertedCount = 0 \<rparr>)"
  by (induction coll) (auto split: prod.splits)

lemma expires_apply_set: "upd_expires u = Some e \<Longrightarrow> expires (apply_set u d) = Some e"
  by (simp add: apply_set_def)

lemma expires_inserted: "expires (inserted i u) = upd_expires u"
  by (simp add: inserted_def)

lemma lookup_filter: "k \<noteq> k' \<Longrightarrow> lookup (filter (\<lambda>p. fst p \<noteq> k') ps) k = lookup ps k"
  by (induction ps) auto

lemma lookup_filter_same: "lookup (filter (\<lambda>p. fst p \<noteq> k) ps) k = JUndefined"
  by (induction ps) auto

lemma opt_prop_delete_other: "k \<noteq> k' \<Longrightarrow> opt_prop (delete_prop v k') k = opt_prop v k"
  by (cases v) (simp_all add: lookup_filter)

lemma opt_prop_delete_same: "opt_prop (delete_prop v k) k = JUndefined"
  by (cases v) (simp_all add: lookup_filter_same)

lemma cookie_expires_strip: "cookie_expires (strip_lastModified st sess) = cookie_expires sess"
  by (simp add: cookie_expires_def strip_lastModified_def opt_prop_delete_other)

lemma expire_handling_strip:
  "expire_handling js st (strip_lastModified st sess) now = expire_handling js st sess now"
  by (simp add: expire_handling_def cookie_expires_strip)

lemma strip_idem: "strip_lastModified st (strip_lastModified st sess) = strip_lastModified st sess"
  by (simp add: strip_lastModified_def opt_prop_delete_same)

text \<open>The record \<^verbatim>\<open>set\<close> writes, when serialization succeeds and the collection is there.\<close>

lemma set_op_stored:
  assumes "serialize_fn (transformFunctions st) (strip_lastModified st sess) = Inr payload"
  shows "\<exists>coll' d. collectionP_after (set_op js st (Inr coll) sid sess now now') = Inr coll'
          \<and> findOne (Id_eq (computeStorageId st sid)) coll' = Some d
          \<and> expires d = Some (expire_handling js st sess now)
          \<and> session d = snd (encrypt_payload st payload)
          \<and> (0 < touchAfter (options st) \<longrightarrow> lastModified d = Some now')"
proof -
  let ?u = "\<lparr> upd_session = Some (snd (encrypt_payload st payload)),
              upd_expires = Some (expire_handling js st sess now),
              upd_lastModified = (if touchAfter (options st) > 0 then Some now' else None) \<rparr>"
  let ?i = "computeStorageId st sid"
  have after: "collectionP_after (set_op js st (Inr coll) sid sess now now') = Inr (fst (updateOne ?i ?u True coll))"
    using assms by (simp add: set_op_def Let_def expire_handling_strip split: prod.splits)
  have found: "findOne (Id_eq ?i) (fst (updateOne ?i ?u True coll)) =
     Some (case findOne (Id_eq ?i) coll of Some d \<Rightarrow> apply_set ?u d | None \<Rightarrow> inserted ?i ?u)"
    by (rule updateOne_stored)
  let ?d = "case findOne (Id_eq ?i) coll of Some d \<Rightarrow> apply_set ?u d | None \<Rightarrow> inserted ?i ?u"
  have e: "expires ?d = Some (expire_handling js st sess now)"
    by (simp add: apply_set_def inserted_def split: option.splits)
  have p: "session ?d = snd (encrypt_payload st payload)"
    by (simp add: apply_set_def inserted_def split: option.splits)
  have m: "0 < touchAfter (options st) \<longrightarrow> lastModified ?d = Some now'"
    by (simp add: apply_set_def inserted_def split: option.splits)
  from after found e p m show ?thesis by blast
qed

lemma set_op_serialize_fails:
  assumes "serialize_fn (transformFunctions st) (strip_lastModified st sess) = Inl e"
  shows "completions (set_op js st collectionP sid sess now now') = [Failure e]"
    and "events (set_op js st collectionP sid sess now now') = []"
    and "collectionP_after (set_op js st collectionP sid sess now now') = collectionP"
  using assms by (simp_all add: set_op_def Let_def)

lemma session_after_set_op:
  "session_after (set_op js st collectionP sid sess now now') = strip_lastModified st sess"
  by (simp add: set_op_def Let_def split: sum.splits prod.splits)

subsection \<open>The decisions of touch\<close>




lemma touch_write:
  assumes "touch_fields js st sess currentDate now = Inr (Write u)"
  shows "touch js st (Inr coll) sid sess currentDate now =
     (if modifiedCount (snd (updateOne (computeStorageId st sid) u False coll)) = 0 then
        \<lparr> completions = [Failure (Error ''Unable to find the session to touch'')],
          events = [], collectionP_after = Inr (fst (updateOne (computeStorageId st sid) u False coll)) \<rparr>
      else
        \<lparr> completions = [Success ()], events = [EvTouch sid sess],
          collectionP_after = Inr (fst (updateOne (computeStorageId st sid) u False coll)) \<rparr>)"
  using assms by (simp add: touch_def split: prod.splits)

lemma touch_skip:
  assumes "touch_fields js st sess currentDate now = Inr Skip"
  shows "touch js st collectionP sid sess currentDate now =
     \<lparr> completions = [Success ()], events = [], collectionP_after = collectionP \<rparr>"
  using assms by (simp add: touch_def)


subsection \<open>Unfolding the operations on sample inputs\<close>

lemmas sample_defs =
  sample_store_def sample_options_def sample_builtins_def sample_kruptein_def
  MongoStore_new_def computeTransformFunctions_def Let_def

lemmas op_defs =
  unit_fn_def defaultSerializeFunction_def cookie_toJSON_def computeStorageId_def
  get_query_def all_query_def findOne_def find_docs_def attach_lastModified_def
  decrypt_payload_def get_def strip_lastModified_def cookie_expires_def
  expire_handling_def encrypt_payload_def set_op_def touch_expire_handling_def
  touch_fields_def touch_def all_op_def apply_set_def inserted_def expired_def
  TimeClip_def

section \<open>Reads never return an expired record\<close>

text \<open>
  Claim C1. A record whose \<^verbatim>\<open>expires\<close> is present and not after the current time is
  selected neither by the query of \<^verbatim>\<open>get\<close> nor by the query of \<^verbatim>\<open>all\<close>: both select
  only records whose \<^verbatim>\<open>expires\<close> is absent or strictly after \<open>now\<close>. What \<^verbatim>\<open>get\<close>
  and \<^verbatim>\<open>all\<close> report is what they report on the collection without its expired records.
\<close>

theorem expired_record_never_read:
  assumes "expired now d"
  shows "findOne (get_query st sid now) coll \<noteq> Some d
       \<and> d \<notin> set (find_docs (all_query now) coll)
       \<and> (\<forall>x. findOne (get_query st sid now) coll = Some x \<longrightarrow>
              expires x = None \<or> (\<exists>e. expires x = Some (Time e) \<and> now < e))
       \<and> (\<forall>x \<in> set (find_docs (all_query now) coll).
              expires x = None \<or> (\<exists>e. expires x = Some (Time e) \<and> now < e))
       \<and> get js st (Inr coll) sid now
           = get js st (Inr (filter (\<lambda>x. \<not> expired now x) coll)) sid now
       \<and> all_op st (Inr coll) now
           = all_op st (Inr (filter (\<lambda>x. \<not> expired now x) coll)) now"
proof -
  have a: "findOne (get_query st sid now) coll \<noteq> Some d"
    using assms findOne_matches [of "get_query st sid now" coll d]
    by (auto simp: matches_get_query)
  have b: "d \<notin> set (find_docs (all_query now) coll)"
    using assms by (simp add: find_docs_def matches_all_query)
  have c: "findOne (get_query st sid now) coll = Some x \<longrightarrow>
              expires x = None \<or> (\<exists>e. expires x = Some (Time e) \<and> now < e)" for x
    using findOne_matches [of "get_query st sid now" coll x]
    by (auto simp: matches_get_query not_expired_iff)
  have d: "\<forall>x \<in> set (find_docs (all_query now) coll).
              expires x = None \<or> (\<exists>e. expires x = Some (Time e) \<and> now < e)"
    by (simp add: find_docs_def matches_all_query not_expired_iff)
  have e: "get js st (Inr coll) sid now
           = get js st (Inr (filter (\<lambda>x. \<not> expired now x) coll)) sid now"
    by (simp add: get_def findOne_live)
  have f: "all_op st (Inr coll) now
           = all_op st (Inr (filter (\<lambda>x. \<not> expired now x) coll)) now"
    by (simp add: all_op_def find_docs_live)
  from a b c d e f show ?thesis by blast
qed

text \<open>
  An instance: at time 1000 a record that expires at 1000 is not read, by its id or
  among all; the record that expires at 1001 is.
\<close>

theorem expired_record_never_read_witness:
  "expired 1000 \<lparr> doc_id = ''abc'', session = JStr ''old'', expires = Some (Time 1000), lastModified = None \<rparr>
   \<and> get sample_builtins (sample_store sample_options)
        (Inr [\<lparr> doc_id = ''abc'', session = JStr ''old'', expires = Some (Time 1000), lastModified = None \<rparr>,
              \<lparr> doc_id = ''abd'', session = JStr ''new'', expires = Some (Time 1001), lastModified = None \<rparr>])
        ''abc'' 1000
       = \<lparr> completions = [Success JNull], events = [EvGet ''abc''] \<rparr>
   \<and> all_op (sample_store sample_options)
        (Inr [\<lparr> doc_id = ''abc'', session = JStr ''old'', expires = Some (Time 1000), lastModified = None \<rparr>,
              \<lparr> doc_id = ''abd'', session = JStr ''new'', expires = Some (Time 1001), lastModified = None \<rparr>])
        1000
       = \<lparr> completions = [Success [JStr ''new'']], events = [EvAll [JStr ''new'']] \<rparr>"
  using expired_record_never_read
    [of 1000 "\<lparr> doc_id = ''abc'', session = JStr ''old'', expires = Some (Time 1000), lastModified = None \<rparr>"
        "sample_store sample_options" "''abc''"
        "[\<lparr> doc_id = ''abc'', session = JStr ''old'', expires = Some (Time 1000), lastModified = None \<rparr>,
          \<lparr> doc_id = ''abd'', session = JStr ''new'', expires = Some (Time 1001), lastModified = None \<rparr>]"
        sample_builtins]
  by (simp add: sample_defs op_defs)

section \<open>A failed decryption in get\<close>

text \<open>
  Claim C2 says that \<^verbatim>\<open>get\<close> reports exactly one completion, an error, when the
  decryption of the fetched payload fails. The inner \<^verbatim>\<open>catch\<close> calls the callback with the
  error and does not return: the call goes on with the payload as stored and calls the
  callback again. Here the secret is set, \<^verbatim>\<open>stringify\<close> is false and kruptein rejects
  the stored text: the error is reported, and then the undecrypted payload as the session.
\<close>

theorem get_decrypt_failure_completes_twice:
  "get sample_builtins (sample_store (sample_options \<lparr> opt_secret := Some ''squirrel'' \<rparr>))
     (Inr [\<lparr> doc_id = ''abc'', session = JStr ''tampered'', expires = None, lastModified = None \<rparr>])
     ''abc'' 1000
   = \<lparr> completions =
         [Failure (Error ''Encrypted session was tampered with!''), Success (JStr ''tampered'')],
       events = [EvGet ''abc''] \<rparr>"
  by (simp add: sample_defs op_defs)

section \<open>get of an absent record\<close>

text \<open>
  Claim C3 says that \<^verbatim>\<open>get\<close> of an absent or expired record succeeds with
  \<^verbatim>\<open>null\<close> under every configuration. With \<^verbatim>\<open>touchAfter = 30\<close> the code reads
  \<^verbatim>\<open>session.lastModified\<close> of the \<^verbatim>\<open>null\<close> it has found, and reports the
  \<^verbatim>\<open>TypeError\<close>: for a collection without the id, and for one where the record of the id
  has expired. With \<^verbatim>\<open>touchAfter = 0\<close> it succeeds with \<^verbatim>\<open>null\<close>.
\<close>

theorem get_absent_with_touchAfter_reports_error:
  "get sample_builtins (sample_store (sample_options \<lparr> opt_touchAfter := Some 30 \<rparr>))
     (Inr []) ''abc'' 1000
   = \<lparr> completions = [Failure TypeError], events = [] \<rparr>
   \<and> get sample_builtins (sample_store (sample_options \<lparr> opt_touchAfter := Some 30 \<rparr>))
     (Inr [\<lparr> doc_id = ''abc'', session = JPlain [], expires = Some (Time 1000), lastModified = Some 500 \<rparr>])
     ''abc'' 1000
   = \<lparr> completions = [Failure TypeError], events = [] \<rparr>
   \<and> get sample_builtins (sample_store sample_options) (Inr []) ''abc'' 1000
   = \<lparr> completions = [Success JNull], events = [EvGet ''abc''] \<rparr>"
  by (simp add: sample_defs op_defs)

section \<open>The expiry that set stores\<close>

text \<open>
  Claim C4, amended. When the payload serializes and the collection is there, \<^verbatim>\<open>set\<close>
  leaves a record under the storage id. When \<^verbatim>\<open>session?.cookie?.expires\<close> is falsy, its
  \<^verbatim>\<open>expires\<close> is the current time plus the configured \<^verbatim>\<open>ttl\<close> in seconds (as
  milliseconds) whenever that instant lies in the range of dates, at most 8.64e15
  milliseconds from the epoch, and an invalid date otherwise. When it is truthy, the
  \<^verbatim>\<open>expires\<close> is \<^verbatim>\<open>new Date\<close> of it: the same instant for a date, the number as
  milliseconds for a number in that range, the date a string parses to, one millisecond
  for \<^verbatim>\<open>true\<close>. The constructor takes 1209600 for a \<^verbatim>\<open>ttl\<close> that is not given.
\<close>

theorem set_stores_expiry:
  assumes "serialize_fn (transformFunctions st) (strip_lastModified st sess) = Inr payload"
  shows "\<exists>coll' d. collectionP_after (set_op js st (Inr coll) sid sess now now') = Inr coll'
          \<and> findOne (Id_eq (computeStorageId st sid)) coll' = Some d
          \<and> (\<not> truthy (cookie_expires sess) \<longrightarrow>
                (- 8640000000000000 \<le> now + ttl (options st) * 1000
                   \<and> now + ttl (options st) * 1000 \<le> 8640000000000000 \<longrightarrow>
                 expires d = Some (Time (now + ttl (options st) * 1000)))
              \<and> (\<not> (- 8640000000000000 \<le> now + ttl (options st) * 1000
                     \<and> now + ttl (options st) * 1000 \<le> 8640000000000000) \<longrightarrow>
                 expires d = Some Invalid_Date))
          \<and> (\<forall>t props. cookie_expires sess = JObj (DateObj t) props \<longrightarrow> expires d = Some (Time t))
          \<and> (\<forall>n. cookie_expires sess = JNum n \<and> n \<noteq> 0 \<longrightarrow>
                (- 8640000000000000 \<le> n \<and> n \<le> 8640000000000000 \<longrightarrow> expires d = Some (Time n))
              \<and> (\<not> (- 8640000000000000 \<le> n \<and> n \<le> 8640000000000000) \<longrightarrow>
                   expires d = Some Invalid_Date))
          \<and> (\<forall>s. cookie_expires sess = JStr s \<and> s \<noteq> [] \<longrightarrow>
                expires d = Some (Date_of js (JStr s)))
          \<and> (cookie_expires sess = JBool True \<longrightarrow> expires d = Some (Time 1))
          \<and> (\<forall>props. cookie_expires sess = JObj Plain props \<longrightarrow>
                expires d = Some (Date_of js (JObj Plain props)))
          \<and> (\<forall>r props. cookie_expires sess = JObj (FunObj r) props \<longrightarrow>
                expires d = Some (Date_of js (JObj (FunObj r) props)))
          \<and> (\<forall>k opts st'. MongoStore_new js k opts = Inr st' \<longrightarrow>
                ttl (options st') = (case opt_ttl opts of None \<Rightarrow> 1209600 | Some t \<Rightarrow> t))"
proof -
  from set_op_stored [OF assms, of js coll sid now now']
  obtain coll' d where
    1: "collectionP_after (set_op js st (Inr coll) sid sess now now') = Inr coll'" and
    2: "findOne (Id_eq (computeStorageId st sid)) coll' = Some d" and
    3: "expires d = Some (expire_handling js st sess now)"
    by blast
  have 4: "\<not> truthy (cookie_expires sess) \<longrightarrow>
                (- 8640000000000000 \<le> now + ttl (options st) * 1000
                   \<and> now + ttl (options st) * 1000 \<le> 8640000000000000 \<longrightarrow>
                 expires d = Some (Time (now + ttl (options st) * 1000)))
              \<and> (\<not> (- 8640000000000000 \<le> now + ttl (options st) * 1000
                     \<and> now + ttl (options st) * 1000 \<le> 8640000000000000) \<longrightarrow>
                 expires d = Some Invalid_Date)"
    using 3 by (simp add: expire_handling_def TimeClip_def)
  have 5: "\<forall>t props. cookie_expires sess = JObj (DateObj t) props \<longrightarrow> expires d = Some (Time t)"
    using 3 by (simp add: expire_handling_def)
  have 6: "\<forall>n. cookie_expires sess = JNum n \<and> n \<noteq> 0 \<longrightarrow>
                (- 8640000000000000 \<le> n \<and> n \<le> 8640000000000000 \<longrightarrow> expires d = Some (Time n))
              \<and> (\<not> (- 8640000000000000 \<le> n \<and> n \<le> 8640000000000000) \<longrightarrow>
                   expires d = Some Invalid_Date)"
    using 3 by (simp add: expire_handling_def TimeClip_def)
  have 7: "\<forall>s. cookie_expires sess = JStr s \<and> s \<noteq> [] \<longrightarrow>
                expires d = Some (Date_of js (JStr s))"
    using 3 by (simp add: expire_handling_def)
  have 8: "cookie_expires sess = JBool True \<longrightarrow> expires d = Some (Time 1)"
    using 3 by (simp add: expire_handling_def)
  have 9: "\<forall>props. cookie_expires sess = JObj Plain props \<longrightarrow>
                expires d = Some (Date_of js (JObj Plain props))"
    using 3 by (simp add: expire_handling_def)
  have 10: "\<forall>r props. cookie_expires sess = JObj (FunObj r) props \<longrightarrow>
                expires d = Some (Date_of js (JObj (FunObj r) props))"
    using 3 by (simp add: expire_handling_def)
  have 11: "\<forall>k opts st'. MongoStore_new js k opts = Inr st' \<longrightarrow>
                ttl (options st') = (case opt_ttl opts of None \<Rightarrow> 1209600 | Some t \<Rightarrow> t)"
    by (auto simp: MongoStore_new_def Let_def split: if_splits)
  from 1 2 4 5 6 7 8 9 10 11 show ?thesis by blast
qed

text \<open>
  An instance: with \<^verbatim>\<open>ttl = 60\<close>, at time 1000, a cookie without expiry gives
  \<^verbatim>\<open>expires\<close> 61000; a cookie that expires at 5000 gives 5000, whether the expiry is a
  date, the number 5000 or the string \<^verbatim>\<open>1970-01-01T00:00:05.000Z\<close>.
\<close>

theorem set_stores_expiry_witness:
  "serialize_fn (transformFunctions (sample_store (sample_options \<lparr> opt_ttl := Some 60 \<rparr>)))
     (strip_lastModified (sample_store (sample_options \<lparr> opt_ttl := Some 60 \<rparr>))
        (JPlain [(''cookie'', JPlain []), (''user'', JStr ''u1'')]))
     = Inr (JPlain [(''cookie'', JPlain []), (''user'', JStr ''u1'')])
   \<and> collectionP_after
        (set_op sample_builtins (sample_store (sample_options \<lparr> opt_ttl := Some 60 \<rparr>)) (Inr []) ''abc''
           (JPlain [(''cookie'', JPlain []), (''user'', JStr ''u1'')]) 1000 1001)
      = Inr [\<lparr> doc_id = ''abc'',
               session = JPlain [(''cookie'', JPlain []), (''user'', JStr ''u1'')],
               expires = Some (Time 61000), lastModified = None \<rparr>]
   \<and> collectionP_after
        (set_op sample_builtins (sample_store (sample_options \<lparr> opt_ttl := Some 60 \<rparr>)) (Inr []) ''abc''
           (JPlain [(''cookie'', JPlain [(''expires'', JDate 5000)])]) 1000 1001)
      = Inr [\<lparr> doc_id = ''abc'',
               session = JPlain [(''cookie'', JPlain [(''expires'', JDate 5000)])],
               expires = Some (Time 5000), lastModified = None \<rparr>]
   \<and> collectionP_after
        (set_op sample_builtins (sample_store (sample_options \<lparr> opt_ttl := Some 60 \<rparr>)) (Inr []) ''abc''
           (JPlain [(''cookie'', JPlain [(''expires'', JNum 5000)])]) 1000 1001)
      = Inr [\<lparr> doc_id = ''abc'',
               session = JPlain [(''cookie'', JPlain [(''expires'', JNum 5000)])],
               expires = Some (Time 5000), lastModified = None \<rparr>]
   \<and> collectionP_after
        (set_op sample_builtins (sample_store (sample_options \<lparr> opt_ttl := Some 60 \<rparr>)) (Inr []) ''abc''
           (JPlain [(''cookie'', JPlain [(''expires'', JStr ''1970-01-01T00:00:05.000Z'')])]) 1000 1001)
      = Inr [\<lparr> doc_id = ''abc'',
               session = JPlain [(''cookie'', JPlain [(''expires'', JStr ''1970-01-01T00:00:05.000Z'')])],
               expires = Some (Time 5000), lastModified = None \<rparr>]
   \<and> ttl (options (sample_store sample_options)) = 1209600"
  using set_stores_expiry
    [where st = "sample_store (sample_options \<lparr> opt_ttl := Some 60 \<rparr>)"
       and sess = "JPlain [(''cookie'', JPlain []), (''user'', JStr ''u1'')]"
       and payload = "JPlain [(''cookie'', JPlain []), (''user'', JStr ''u1'')]"
       and js = sample_builtins and coll = "[]" and sid = "''abc''" and now = 1000 and now' = 1001]
    set_stores_expiry
    [where st = "sample_store (sample_options \<lparr> opt_ttl := Some 60 \<rparr>)"
       and sess = "JPlain [(''cookie'', JPlain [(''expires'', JNum 5000)])]"
       and payload = "JPlain [(''cookie'', JPlain [(''expires'', JNum 5000)])]"
       and js = sample_builtins and coll = "[]" and sid = "''abc''" and now = 1000 and now' = 1001]
  by (simp add: sample_defs op_defs)

text \<open>
  The claim as it was stated promises the current time plus \<^verbatim>\<open>ttl\<close> for every
  configuration. With a \<^verbatim>\<open>ttl\<close> of 10000000000000 seconds the sum is past the last date,
  and the record gets an invalid date.
\<close>

theorem set_huge_ttl_counterexample:
  "\<not> truthy (cookie_expires (JPlain [(''cookie'', JPlain [])]))
   \<and> ttl (options (sample_store (sample_options \<lparr> opt_ttl := Some 10000000000000 \<rparr>))) = 10000000000000
   \<and> collectionP_after
        (set_op sample_builtins (sample_store (sample_options \<lparr> opt_ttl := Some 10000000000000 \<rparr>))
           (Inr []) ''abc'' (JPlain [(''cookie'', JPlain [])]) 1000 1001)
      = Inr [\<lparr> doc_id = ''abc'', session = JPlain [(''cookie'', JPlain [])],
               expires = Some Invalid_Date, lastModified = None \<rparr>]"
  by (simp add: sample_defs op_defs)

section \<open>The threshold of touch\<close>




section \<open>touch of a session that is not stored\<close>

text \<open>
  Claim C6. A \<^verbatim>\<open>touch\<close> that gets to the update and modifies no record, as when no
  record has the storage id, reports the error \<^verbatim>\<open>Unable to find the session to touch\<close>
  and emits nothing; a \<^verbatim>\<open>touch\<close> that is skipped for the threshold reports success.
\<close>

theorem touch_not_found_is_error:
  "(touch_fields js st sess currentDate now = Inr (Write u) \<longrightarrow>
      (\<not> list_ex (\<lambda>d. doc_id d = computeStorageId st sid) coll \<longrightarrow>
         touch js st (Inr coll) sid sess currentDate now =
           \<lparr> completions = [Failure (Error ''Unable to find the session to touch'')],
             events = [], collectionP_after = Inr coll \<rparr>)
    \<and> (modifiedCount (snd (updateOne (computeStorageId st sid) u False coll)) = 0 \<longrightarrow>
         completions (touch js st (Inr coll) sid sess currentDate now) =
           [Failure (Error ''Unable to find the session to touch'')]
         \<and> events (touch js st (Inr coll) sid sess currentDate now) = []))
   \<and> (touch_fields js st sess currentDate now = Inr Skip \<longrightarrow>
         touch js st collectionP sid sess currentDate now =
           \<lparr> completions = [Success ()], events = [], collectionP_after = collectionP \<rparr>)"
proof (intro conjI impI)
  assume w: "touch_fields js st sess currentDate now = Inr (Write u)"
  { assume "\<not> list_ex (\<lambda>d. doc_id d = computeStorageId st sid) coll"
    then show "touch js st (Inr coll) sid sess currentDate now =
           \<lparr> completions = [Failure (Error ''Unable to find the session to touch'')],
             events = [], collectionP_after = Inr coll \<rparr>"
      by (simp add: touch_write [OF w] updateOne_absent) }
  { assume "modifiedCount (snd (updateOne (computeStorageId st sid) u False coll)) = 0"
    then show "completions (touch js st (Inr coll) sid sess currentDate now) =
           [Failure (Error ''Unable to find the session to touch'')]"
      and "events (touch js st (Inr coll) sid sess currentDate now) = []"
      by (simp_all add: touch_write [OF w]) }
next
  assume "touch_fields js st sess currentDate now = Inr Skip"
  then show "touch js st collectionP sid sess currentDate now =
           \<lparr> completions = [Success ()], events = [], collectionP_after = collectionP \<rparr>"
    by (rule touch_skip)
qed

text \<open>
  An instance: a touch past the threshold for an id the collection does not hold, and a
  touch below the threshold.
\<close>

theorem touch_not_found_is_error_witness:
  "touch_fields sample_builtins (sample_store (sample_options \<lparr> opt_touchAfter := Some 30 \<rparr>))
     (JPlain [(''cookie'', JPlain []), (''lastModified'', JDate 1000)]) 41000 41001
     = Inr (Write \<lparr> upd_session = None, upd_expires = Some (Time 1209641001), upd_lastModified = Some 41000 \<rparr>)
   \<and> touch sample_builtins (sample_store (sample_options \<lparr> opt_touchAfter := Some 30 \<rparr>))
       (Inr [\<lparr> doc_id = ''abd'', session = JPlain [], expires = Some (Time 61000), lastModified = Some 1000 \<rparr>])
       ''abc'' (JPlain [(''cookie'', JPlain []), (''lastModified'', JDate 1000)]) 41000 41001
     = \<lparr> completions = [Failure (Error ''Unable to find the session to touch'')], events = [],
         collectionP_after =
           Inr [\<lparr> doc_id = ''abd'', session = JPlain [], expires = Some (Time 61000), lastModified = Some 1000 \<rparr>] \<rparr>
   \<and> touch_fields sample_builtins (sample_store (sample_options \<lparr> opt_touchAfter := Some 30 \<rparr>))
     (JPlain [(''cookie'', JPlain []), (''lastModified'', JDate 1000)]) 11000 11001
     = Inr Skip
   \<and> touch sample_builtins (sample_store (sample_options \<lparr> opt_touchAfter := Some 30 \<rparr>))
       (Inr []) ''abc'' (JPlain [(''cookie'', JPlain []), (''lastModified'', JDate 1000)]) 11000 11001
     = \<lparr> completions = [Success ()], events = [], collectionP_after = Inr [] \<rparr>"
  using touch_not_found_is_error
    [where js = sample_builtins and st = "sample_store (sample_options \<lparr> opt_touchAfter := Some 30 \<rparr>)"
       and sess = "JPlain [(''cookie'', JPlain []), (''lastModified'', JDate 1000)]"
       and currentDate = 41000 and now = 41001
       and u = "\<lparr> upd_session = None, upd_expires = Some (Time 1209641001), upd_lastModified = Some 41000 \<rparr>"
       and sid = "''abc''"
       and coll = "[\<lparr> doc_id = ''abd'', session = JPlain [], expires = Some (Time 61000), lastModified = Some 1000 \<rparr>]"]
    touch_not_found_is_error
    [where js = sample_builtins and st = "sample_store (sample_options \<lparr> opt_touchAfter := Some 30 \<rparr>)"
       and sess = "JPlain [(''cookie'', JPlain []), (''lastModified'', JDate 1000)]"
       and currentDate = 11000 and now = 11001 and sid = "''abc''" and collectionP = "Inr []"]
  by (simp add: sample_defs op_defs)

section \<open>The notifications of set\<close>

text \<open>
  Claim C7. A \<^verbatim>\<open>set\<close> that reports success has emitted exactly two notifications:
  \<^verbatim>\<open>create\<close> when no record had the storage id, so that the upsert inserted one, and
  \<^verbatim>\<open>update\<close> when one had it, and then \<^verbatim>\<open>set\<close>.
\<close>

theorem set_emits_create_or_update:
  assumes "Success () \<in> set (completions (set_op js st collectionP sid sess now now'))"
  shows "\<exists>coll coll'. collectionP = Inr coll
          \<and> collectionP_after (set_op js st collectionP sid sess now now') = Inr coll'
          \<and> (if list_ex (\<lambda>d. doc_id d = computeStorageId st sid) coll
              then events (set_op js st collectionP sid sess now now') = [EvUpdate sid, EvSet sid]
                   \<and> length coll' = length coll
              else events (set_op js st collectionP sid sess now now') = [EvCreate sid, EvSet sid]
                   \<and> length coll' = Suc (length coll))"
proof (cases "serialize_fn (transformFunctions st) (strip_lastModified st sess)")
  case (Inl e)
  with assms show ?thesis by (simp add: set_op_def Let_def)
next
  case (Inr payload)
  note ser = this
  show ?thesis
  proof (cases collectionP)
    case (Inl e)
    with assms ser show ?thesis
      by (auto simp: set_op_def Let_def encrypt_payload_def split: prod.splits option.splits sum.splits)
  next
    case (Inr coll)
    let ?u = "\<lparr> upd_session = Some (snd (encrypt_payload st payload)),
              upd_expires = Some (expire_handling js st sess now),
              upd_lastModified = (if touchAfter (options st) > 0 then Some now' else None) \<rparr>"
    let ?i = "computeStorageId st sid"
    have after: "collectionP_after (set_op js st collectionP sid sess now now') = Inr (fst (updateOne ?i ?u True coll))"
      using ser Inr by (simp add: set_op_def Let_def expire_handling_strip split: prod.splits)
    have ev: "events (set_op js st collectionP sid sess now now') =
        [if upsertedCount (snd (updateOne ?i ?u True coll)) > 0 then EvCreate sid else EvUpdate sid, EvSet sid]"
      using ser Inr by (simp add: set_op_def Let_def expire_handling_strip split: prod.splits)
    show ?thesis
      using Inr after ev
      by (simp add: updateOne_upsertedCount updateOne_insert updateOne_length)
  qed
qed

text \<open>
  An instance: the first \<^verbatim>\<open>set\<close> of an id and a \<^verbatim>\<open>set\<close> of a stored id.
\<close>

theorem set_emits_create_or_update_witness:
  "Success () \<in> set (completions
      (set_op sample_builtins (sample_store sample_options) (Inr []) ''abc''
         (JPlain [(''cookie'', JPlain [])]) 1000 1001))
   \<and> events
      (set_op sample_builtins (sample_store sample_options) (Inr []) ''abc''
         (JPlain [(''cookie'', JPlain [])]) 1000 1001)
      = [EvCreate ''abc'', EvSet ''abc'']
   \<and> events
      (set_op sample_builtins (sample_store sample_options)
         (Inr [\<lparr> doc_id = ''abc'', session = JPlain [], expires = Some (Time 61000), lastModified = None \<rparr>])
         ''abc'' (JPlain [(''cookie'', JPlain [])]) 1000 1001)
      = [EvUpdate ''abc'', EvSet ''abc'']"
  using set_emits_create_or_update
    [where js = sample_builtins and st = "sample_store sample_options"
       and collectionP = "Inr []" and sid = "''abc''"
       and sess = "JPlain [(''cookie'', JPlain [])]" and now = 1000 and now' = 1001]
    set_emits_create_or_update
    [where js = sample_builtins and st = "sample_store sample_options"
       and collectionP = "Inr [\<lparr> doc_id = ''abc'', session = JPlain [], expires = Some (Time 61000), lastModified = None \<rparr>]"
       and sid = "''abc''"
       and sess = "JPlain [(''cookie'', JPlain [])]" and now = 1000 and now' = 1001]
  by (simp add: sample_defs op_defs)

section \<open>One custom transform\<close>

text \<open>
  Claim C8, amended. When only \<^verbatim>\<open>serialize\<close> is supplied, it is used and
  \<^verbatim>\<open>unserialize\<close> is the identity; when only \<^verbatim>\<open>unserialize\<close> is supplied, it is used
  and \<^verbatim>\<open>serialize\<close> is \<^verbatim>\<open>defaultSerializeFunction\<close>, the structural copy that converts
  the cookie with its \<^verbatim>\<open>toJSON\<close>.
\<close>

theorem transform_single_override:
  "(serialize opts = Some f \<and> unserialize opts = None \<longrightarrow>
      computeTransformFunctions js opts = \<lparr> serialize_fn = f, unserialize_fn = unit_fn \<rparr>)
   \<and> (serialize opts = None \<and> unserialize opts = Some g \<longrightarrow>
      computeTransformFunctions js opts =
        \<lparr> serialize_fn = defaultSerializeFunction, unserialize_fn = g \<rparr>)
   \<and> unit_fn a = Inr a"
  by (simp add: computeTransformFunctions_def unit_fn_def)

text \<open>
  An instance for each of the two cases.
\<close>

theorem transform_single_override_witness:
  "serialize (options (sample_store (sample_options \<lparr> opt_serialize := Some unit_fn \<rparr>))) = Some unit_fn
   \<and> unserialize (options (sample_store (sample_options \<lparr> opt_serialize := Some unit_fn \<rparr>))) = None
   \<and> computeTransformFunctions sample_builtins
        (options (sample_store (sample_options \<lparr> opt_serialize := Some unit_fn \<rparr>)))
      = \<lparr> serialize_fn = unit_fn, unserialize_fn = unit_fn \<rparr>
   \<and> computeTransformFunctions sample_builtins
        (options (sample_store (sample_options \<lparr> opt_unserialize := Some unit_fn \<rparr>)))
      = \<lparr> serialize_fn = defaultSerializeFunction, unserialize_fn = unit_fn \<rparr>"
  using transform_single_override
    [where opts = "options (sample_store (sample_options \<lparr> opt_serialize := Some unit_fn \<rparr>))"
       and f = unit_fn and js = sample_builtins]
    transform_single_override
    [where opts = "options (sample_store (sample_options \<lparr> opt_unserialize := Some unit_fn \<rparr>))"
       and g = unit_fn and js = sample_builtins]
  by (simp add: sample_store_def sample_options_def MongoStore_new_def Let_def)

text \<open>
  The claim as it was stated has \<^verbatim>\<open>serialize\<close> the identity when only
  \<^verbatim>\<open>unserialize\<close> is supplied. On a session whose cookie has a \<^verbatim>\<open>toJSON\<close> method the
  serializer of such a store returns the cookie converted, not the session it was given.
\<close>

theorem only_unserialize_counterexample:
  "serialize (options (sample_store (sample_options \<lparr> opt_unserialize := Some unit_fn \<rparr>))) = None
   \<and> serialize_fn (transformFunctions (sample_store (sample_options \<lparr> opt_unserialize := Some unit_fn \<rparr>)))
        (JPlain [(''cookie'', JPlain [(''path'', JStr ''/''), (''toJSON'', JFun (JPlain [(''path'', JStr ''/'')]))])])
      = Inr (JPlain [(''cookie'', JPlain [(''path'', JStr ''/'')])])
   \<and> serialize_fn (transformFunctions (sample_store (sample_options \<lparr> opt_unserialize := Some unit_fn \<rparr>)))
        (JPlain [(''cookie'', JPlain [(''path'', JStr ''/''), (''toJSON'', JFun (JPlain [(''path'', JStr ''/'')]))])])
      \<noteq> unit_fn (JPlain [(''cookie'', JPlain [(''path'', JStr ''/''), (''toJSON'', JFun (JPlain [(''path'', JStr ''/'')]))])])"
  by (simp add: sample_defs op_defs)

section \<open>The payload that set serializes\<close>

text \<open>
  Claim C9, amended. When \<^verbatim>\<open>touchAfter > 0\<close> and the \<^verbatim>\<open>lastModified\<close> of the payload
  is truthy, \<^verbatim>\<open>set\<close> serializes the payload without its \<^verbatim>\<open>lastModified\<close> field: the
  call is the call on the payload without the field, and the stored payload is the
  serialized (and, with a secret, encrypted) payload without it. Otherwise, and so for
  \<^verbatim>\<open>touchAfter = 0\<close>, \<^verbatim>\<open>set\<close> serializes the payload as it was supplied, and stores
  that. In both cases a serializer that throws ends the call with its error.
\<close>

theorem set_serializes_stripped_payload:
  "(0 < touchAfter (options st) \<and> truthy (opt_prop sess ''lastModified'') \<longrightarrow>
      strip_lastModified st sess = delete_prop sess ''lastModified''
    \<and> opt_prop (delete_prop sess ''lastModified'') ''lastModified'' = JUndefined
    \<and> ''lastModified'' \<notin> fst ` set (for_in (delete_prop sess ''lastModified''))
    \<and> set_op js st collectionP sid sess now now'
        = set_op js st collectionP sid (delete_prop sess ''lastModified'') now now'
    \<and> (\<forall>e. serialize_fn (transformFunctions st) (delete_prop sess ''lastModified'') = Inl e
          \<longrightarrow> completions (set_op js st collectionP sid sess now now') = [Failure e]
            \<and> events (set_op js st collectionP sid sess now now') = []
            \<and> collectionP_after (set_op js st collectionP sid sess now now') = collectionP)
    \<and> (\<forall>payload coll.
          serialize_fn (transformFunctions st) (delete_prop sess ''lastModified'') = Inr payload
          \<longrightarrow> (\<exists>coll' d.
                 collectionP_after (set_op js st (Inr coll) sid sess now now') = Inr coll'
               \<and> findOne (Id_eq (computeStorageId st sid)) coll' = Some d
               \<and> session d = snd (encrypt_payload st payload))))
   \<and> (\<not> (0 < touchAfter (options st) \<and> truthy (opt_prop sess ''lastModified'')) \<longrightarrow>
        strip_lastModified st sess = sess
      \<and> (\<forall>e. serialize_fn (transformFunctions st) sess = Inl e
            \<longrightarrow> completions (set_op js st collectionP sid sess now now') = [Failure e]
              \<and> events (set_op js st collectionP sid sess now now') = []
              \<and> collectionP_after (set_op js st collectionP sid sess now now') = collectionP)
      \<and> (\<forall>payload coll.
            serialize_fn (transformFunctions st) sess = Inr payload
            \<longrightarrow> (\<exists>coll' d.
                   collectionP_after (set_op js st (Inr coll) sid sess now now') = Inr coll'
                 \<and> findOne (Id_eq (computeStorageId st sid)) coll' = Some d
                 \<and> session d = snd (encrypt_payload st payload))))"
proof (intro conjI allI impI)
  assume a: "0 < touchAfter (options st) \<and> truthy (opt_prop sess ''lastModified'')"
  show s: "strip_lastModified st sess = delete_prop sess ''lastModified''"
    using a by (simp add: strip_lastModified_def)
  show "opt_prop (delete_prop sess ''lastModified'') ''lastModified'' = JUndefined"
    by (rule opt_prop_delete_same)
  show "''lastModified'' \<notin> fst ` set (for_in (delete_prop sess ''lastModified''))"
    using a by (cases sess) auto
  have "strip_lastModified st (delete_prop sess ''lastModified'') = strip_lastModified st sess"
    using strip_idem [of st sess] by (simp add: s)
  then show "set_op js st collectionP sid sess now now'
        = set_op js st collectionP sid (delete_prop sess ''lastModified'') now now'"
    by (simp add: set_op_def)
  { fix e
    assume "serialize_fn (transformFunctions st) (delete_prop sess ''lastModified'') = Inl e"
    then have f: "serialize_fn (transformFunctions st) (strip_lastModified st sess) = Inl e"
      by (simp add: s)
    show "completions (set_op js st collectionP sid sess now now') = [Failure e]"
      by (rule set_op_serialize_fails(1) [OF f])
    show "events (set_op js st collectionP sid sess now now') = []"
      by (rule set_op_serialize_fails(2) [OF f])
    show "collectionP_after (set_op js st collectionP sid sess now now') = collectionP"
      by (rule set_op_serialize_fails(3) [OF f]) }
  fix payload coll
  assume "serialize_fn (transformFunctions st) (delete_prop sess ''lastModified'') = Inr payload"
  then have "serialize_fn (transformFunctions st) (strip_lastModified st sess) = Inr payload"
    by (simp add: s)
  from set_op_stored [OF this, of js coll sid now now']
  show "\<exists>coll' d.
                 collectionP_after (set_op js st (Inr coll) sid sess now now') = Inr coll'
               \<and> findOne (Id_eq (computeStorageId st sid)) coll' = Some d
               \<and> session d = snd (encrypt_payload st payload)"
    by blast
next
  assume "\<not> (0 < touchAfter (options st) \<and> truthy (opt_prop sess ''lastModified''))"
  then show s: "strip_lastModified st sess = sess"
    by (auto simp: strip_lastModified_def)
  { fix e
    assume "serialize_fn (transformFunctions st) sess = Inl e"
    then have f: "serialize_fn (transformFunctions st) (strip_lastModified st sess) = Inl e"
      by (simp add: s)
    show "completions (set_op js st collectionP sid sess now now') = [Failure e]"
      by (rule set_op_serialize_fails(1) [OF f])
    show "events (set_op js st collectionP sid sess now now') = []"
      by (rule set_op_serialize_fails(2) [OF f])
    show "collectionP_after (set_op js st collectionP sid sess now now') = collectionP"
      by (rule set_op_serialize_fails(3) [OF f]) }
  fix payload coll
  assume "serialize_fn (transformFunctions st) sess = Inr payload"
  then have "serialize_fn (transformFunctions st) (strip_lastModified st sess) = Inr payload"
    by (simp add: s)
  from set_op_stored [OF this, of js coll sid now now']
  show "\<exists>coll' d.
                 collectionP_after (set_op js st (Inr coll) sid sess now now') = Inr coll'
               \<and> findOne (Id_eq (computeStorageId st sid)) coll' = Some d
               \<and> session d = snd (encrypt_payload st payload)"
    by blast
qed

text \<open>
  An instance of each case. With \<^verbatim>\<open>touchAfter = 30\<close> the stored payload has no
  \<^verbatim>\<open>lastModified\<close>; with \<^verbatim>\<open>touchAfter\<close> not given it has the one of the caller.
\<close>

theorem set_serializes_stripped_payload_witness:
  "0 < touchAfter (options (sample_store (sample_options \<lparr> opt_ttl := Some 60, opt_touchAfter := Some 30 \<rparr>)))
   \<and> truthy (opt_prop (JPlain [(''cookie'', JPlain []), (''user'', JStr ''u1''), (''lastModified'', JDate 5)])
                ''lastModified'')
   \<and> collectionP_after
        (set_op sample_builtins (sample_store (sample_options \<lparr> opt_ttl := Some 60, opt_touchAfter := Some 30 \<rparr>))
           (Inr []) ''abc''
           (JPlain [(''cookie'', JPlain []), (''user'', JStr ''u1''), (''lastModified'', JDate 5)])
           1000 1001)
      = Inr [\<lparr> doc_id = ''abc'',
               session = JPlain [(''cookie'', JPlain []), (''user'', JStr ''u1'')],
               expires = Some (Time 61000), lastModified = Some 1001 \<rparr>]
   \<and> \<not> 0 < touchAfter (options (sample_store (sample_options \<lparr> opt_ttl := Some 60 \<rparr>)))
   \<and> collectionP_after
        (set_op sample_builtins (sample_store (sample_options \<lparr> opt_ttl := Some 60 \<rparr>))
           (Inr []) ''abc''
           (JPlain [(''cookie'', JPlain []), (''user'', JStr ''u1''), (''lastModified'', JDate 5)])
           1000 1001)
      = Inr [\<lparr> doc_id = ''abc'',
               session = JPlain [(''cookie'', JPlain []), (''user'', JStr ''u1''), (''lastModified'', JDate 5)],
               expires = Some (Time 61000), lastModified = None \<rparr>]"
  using set_serializes_stripped_payload
    [where js = sample_builtins
       and st = "sample_store (sample_options \<lparr> opt_ttl := Some 60, opt_touchAfter := Some 30 \<rparr>)"
       and sess = "JPlain [(''cookie'', JPlain []), (''user'', JStr ''u1''), (''lastModified'', JDate 5)]"
       and collectionP = "Inr []" and sid = "''abc''" and now = 1000 and now' = 1001]
    set_serializes_stripped_payload
    [where js = sample_builtins
       and st = "sample_store (sample_options \<lparr> opt_ttl := Some 60 \<rparr>)"
       and sess = "JPlain [(''cookie'', JPlain []), (''user'', JStr ''u1''), (''lastModified'', JDate 5)]"
       and collectionP = "Inr []" and sid = "''abc''" and now = 1000 and now' = 1001]
  by (simp add: sample_defs op_defs)

text \<open>
  The claim as it was stated includes \<^verbatim>\<open>touchAfter = 0\<close>. There the field of the
  caller is serialized and stored with the rest of the payload.
\<close>

theorem set_keeps_lastModified_counterexample:
  "touchAfter (options (sample_store (sample_options \<lparr> opt_ttl := Some 60 \<rparr>))) = 0
   \<and> collectionP_after
        (set_op sample_builtins (sample_store (sample_options \<lparr> opt_ttl := Some 60 \<rparr>)) (Inr []) ''abc''
           (JPlain [(''cookie'', JPlain []), (''user'', JStr ''u1''), (''lastModified'', JDate 5)])
           1000 1001)
      = Inr [\<lparr> doc_id = ''abc'',
               session = JPlain [(''cookie'', JPlain []), (''user'', JStr ''u1''), (''lastModified'', JDate 5)],
               expires = Some (Time 61000), lastModified = None \<rparr>]"
  by (simp add: sample_defs op_defs)

section \<open>The caller's object after set\<close>

text \<open>
  Claim C10, amended. When \<^verbatim>\<open>touchAfter > 0\<close> and the \<^verbatim>\<open>lastModified\<close> of the
  caller's payload is truthy, the object of the caller is, after \<^verbatim>\<open>set\<close>, the object
  without that field: every other property is there, with its value and in its place.
  Otherwise the object is as it was.
\<close>

theorem set_deletes_lastModified_in_place:
  "(0 < touchAfter (options st) \<and> truthy (opt_prop sess ''lastModified'') \<longrightarrow>
      session_after (set_op js st collectionP sid sess now now') = delete_prop sess ''lastModified''
    \<and> opt_prop (session_after (set_op js st collectionP sid sess now now')) ''lastModified'' = JUndefined
    \<and> for_in (session_after (set_op js st collectionP sid sess now now'))
        = filter (\<lambda>p. fst p \<noteq> ''lastModified'') (for_in sess)
    \<and> (\<forall>k. k \<noteq> ''lastModified'' \<longrightarrow>
          opt_prop (session_after (set_op js st collectionP sid sess now now')) k = opt_prop sess k))
   \<and> (\<not> (0 < touchAfter (options st) \<and> truthy (opt_prop sess ''lastModified'')) \<longrightarrow>
        session_after (set_op js st collectionP sid sess now now') = sess)"
proof (intro conjI allI impI)
  assume a: "0 < touchAfter (options st) \<and> truthy (opt_prop sess ''lastModified'')"
  then show s: "session_after (set_op js st collectionP sid sess now now') = delete_prop sess ''lastModified''"
    by (simp add: session_after_set_op strip_lastModified_def)
  show "opt_prop (session_after (set_op js st collectionP sid sess now now')) ''lastModified'' = JUndefined"
    unfolding s by (rule opt_prop_delete_same)
  show "for_in (session_after (set_op js st collectionP sid sess now now'))
        = filter (\<lambda>p. fst p \<noteq> ''lastModified'') (for_in sess)"
    unfolding s using a by (cases sess) auto
  fix k :: string
  assume "k \<noteq> ''lastModified''"
  then show "opt_prop (session_after (set_op js st collectionP sid sess now now')) k = opt_prop sess k"
    unfolding s by (rule opt_prop_delete_other)
next
  assume "\<not> (0 < touchAfter (options st) \<and> truthy (opt_prop sess ''lastModified''))"
  then show "session_after (set_op js st collectionP sid sess now now') = sess"
    by (auto simp: session_after_set_op strip_lastModified_def)
qed

text \<open>
  An instance, with \<^verbatim>\<open>touchAfter = 30\<close> and a date as \<^verbatim>\<open>lastModified\<close>.
\<close>

theorem set_deletes_lastModified_in_place_witness:
  "0 < touchAfter (options (sample_store (sample_options \<lparr> opt_touchAfter := Some 30 \<rparr>)))
   \<and> truthy (opt_prop (JPlain [(''cookie'', JPlain []), (''lastModified'', JDate 5), (''user'', JStr ''u1'')])
                ''lastModified'')
   \<and> session_after
        (set_op sample_builtins (sample_store (sample_options \<lparr> opt_touchAfter := Some 30 \<rparr>))
           (Inr []) ''abc''
           (JPlain [(''cookie'', JPlain []), (''lastModified'', JDate 5), (''user'', JStr ''u1'')])
           1000 1001)
      = JPlain [(''cookie'', JPlain []), (''user'', JStr ''u1'')]"
  using set_deletes_lastModified_in_place
    [where js = sample_builtins
       and st = "sample_store (sample_options \<lparr> opt_touchAfter := Some 30 \<rparr>)"
       and sess = "JPlain [(''cookie'', JPlain []), (''lastModified'', JDate 5), (''user'', JStr ''u1'')]"
       and collectionP = "Inr []" and sid = "''abc''" and now = 1000 and now' = 1001]
  by (simp add: sample_defs op_defs)

text \<open>
  The claim as it was stated asks only that the payload has the field. A field with a
  falsy value, here the number 0, does not pass the test of \<^verbatim>\<open>set\<close> and stays.
\<close>

theorem set_keeps_falsy_lastModified_counterexample:
  "0 < touchAfter (options (sample_store (sample_options \<lparr> opt_touchAfter := Some 30 \<rparr>)))
   \<and> session_after
        (set_op sample_builtins (sample_store (sample_options \<lparr> opt_touchAfter := Some 30 \<rparr>)) (Inr []) ''abc''
           (JPlain [(''cookie'', JPlain []), (''lastModified'', JNum 0)]) 1000 1001)
      = JPlain [(''cookie'', JPlain []), (''lastModified'', JNum 0)]"
  by (simp add: sample_defs op_defs)

end
